theory Spec2Isabelle
  imports Main "HOL-Library.Char_ord" "HOL-Library.List_Lexorder" "HOL-Library.Multiset"
begin

section \<open>Agenda telefonica: the server of the contact book\<close>

text \<open>
  The development follows the Express server of the repository (the part of
  \<^verbatim>\<open>src/public/app.js\<close> that starts with "Servidor Backend") and the schema of
  \<^verbatim>\<open>src/database.js\<close>. A JavaScript string is a \<^typ>\<open>string\<close>: one \<^typ>\<open>char\<close> per
  code unit, so the model covers the strings whose code units are below 256.
\<close>

subsection \<open>String helpers of JavaScript\<close>

text \<open>The class \<^verbatim>\<open>\d\<close> of a JavaScript regular expression: the ten ASCII digits.\<close>

definition digito :: "char \<Rightarrow> bool" where
  "digito c \<longleftrightarrow> c \<in> set ''0123456789''"

text \<open>
  The white space that \<^verbatim>\<open>String.prototype.trim\<close> strips, among the code units below
  256: TAB, LF, VT, FF, CR, space and the no-break space.
\<close>

definition espaco_js :: "char \<Rightarrow> bool" where
  "espaco_js c \<longleftrightarrow> c \<in> set [CHR 0x09, CHR 0x0A, CHR 0x0B, CHR 0x0C, CHR 0x0D, CHR 0x20, CHR 0xA0]"

definition trim :: "string \<Rightarrow> string" where
  "trim s = rev (dropWhile espaco_js (rev (dropWhile espaco_js s)))"

text \<open>\<^verbatim>\<open>xs.join(sep)\<close>.\<close>

fun join :: "string \<Rightarrow> string list \<Rightarrow> string" where
  "join sep [] = []"
| "join sep [x] = x"
| "join sep (x # y # ys) = x @ sep @ join sep (y # ys)"

text \<open>
  \<^verbatim>\<open>s.split(sep)\<close> for a non-empty separator: the pieces between the occurrences
  of \<open>sep\<close>, found from left to right without overlap. The empty string gives one
  empty piece.
\<close>

function split :: "string \<Rightarrow> string \<Rightarrow> string list" where
  "split sep [] = [[]]"
| "split sep (c # cs) =
     (if sep \<noteq> [] \<and> take (length sep) (c # cs) = sep
      then [] # split sep (drop (length sep) (c # cs))
      else (case split sep cs of
              [] \<Rightarrow> [[c]]
            | p # ps \<Rightarrow> (c # p) # ps))"
  by pat_completeness auto
termination
  by (relation "measure (\<lambda>(sep, s). length s)") auto

subsection \<open>Sanitising and normalising\<close>

text \<open>
  \<^verbatim>\<open>sanitizar(str)\<close>: \<^verbatim>\<open>str.trim().substring(0, 200)\<close>. The request body is taken
  well typed (\<^verbatim>\<open>{nome, idade, telefones: string[]}\<close>), so the branch for a value
  that is not a string is not part of the model.
\<close>

definition sanitizar :: "string \<Rightarrow> string" where
  "sanitizar str = take 200 (trim str)"

text \<open>
  \<^verbatim>\<open>normalizarNumero(str)\<close> of the server: \<^verbatim>\<open>str.replace(/\D+/g, '')\<close>. The
  regular expression matches a maximal run of characters that are not digits, and
  each run is replaced by the empty string.
\<close>

function normalizarNumero :: "string \<Rightarrow> string" where
  "normalizarNumero [] = []"
| "normalizarNumero (c # cs) =
     (if digito c then c # normalizarNumero cs
      else normalizarNumero (dropWhile (\<lambda>d. \<not> digito d) cs))"
  by pat_completeness auto
termination
  by (relation "measure length") (auto simp: less_Suc_eq_le length_dropWhile_le)

text \<open>
  \<^verbatim>\<open>normalizarTelefone(str)\<close> of the client: \<^verbatim>\<open>str.replace(/\D/g, '')\<close>, one
  character that is not a digit at a time.
\<close>

fun normalizarTelefone :: "string \<Rightarrow> string" where
  "normalizarTelefone [] = []"
| "normalizarTelefone (c # cs) =
     (if digito c then c # normalizarTelefone cs else normalizarTelefone cs)"

text \<open>\<^verbatim>\<open>validarTelefone(numero)\<close>: ten or eleven digits.\<close>

definition validarTelefone :: "string \<Rightarrow> bool" where
  "validarTelefone numero =
     (let normalizado = normalizarNumero numero
      in length normalizado \<ge> 10 \<and> length normalizado \<le> 11)"

subsection \<open>The operators of SQLite that the queries use\<close>

text \<open>
  \<^verbatim>\<open>REPLACE(X, 'c', '')\<close> for a pattern of one character removes every
  occurrence of that character.
\<close>

definition sql_replace :: "string \<Rightarrow> char \<Rightarrow> string" where
  "sql_replace x c = filter (\<lambda>d. d \<noteq> c) x"

text \<open>
  \<^verbatim>\<open>SQL_NUMERO_NORMALIZADO\<close>:
  \<^verbatim>\<open>REPLACE(REPLACE(REPLACE(REPLACE(t.NUMERO, '(', ''), ')', ''), '-', ''), ' ', '')\<close>.
\<close>

definition SQL_NUMERO_NORMALIZADO :: "string \<Rightarrow> string" where
  "SQL_NUMERO_NORMALIZADO numero =
     sql_replace (sql_replace (sql_replace (sql_replace numero (CHR ''('')) (CHR '')'')) (CHR ''-'')) (CHR '' '')"

text \<open>The case folding of \<^verbatim>\<open>LIKE\<close>: the 26 ASCII letters only.\<close>

definition minuscula :: "char \<Rightarrow> char" where
  "minuscula c =
     (case map_of (zip ''ABCDEFGHIJKLMNOPQRSTUVWXYZ'' ''abcdefghijklmnopqrstuvwxyz'') c of
        None \<Rightarrow> c
      | Some d \<Rightarrow> d)"

text \<open>
  \<^verbatim>\<open>X LIKE P\<close> (no \<^verbatim>\<open>ESCAPE\<close>), as \<open>like P X\<close>: in the pattern \<^verbatim>\<open>%\<close> stands for
  any run of characters, \<^verbatim>\<open>_\<close> for any one character, and every other
  character for itself up to the case of ASCII letters.
\<close>

fun like :: "string \<Rightarrow> string \<Rightarrow> bool" where
  "like [] x = (x = [])"
| "like (p # ps) x =
     (if p = CHR ''%''
      then like ps x \<or> (case x of [] \<Rightarrow> False | _ # cs \<Rightarrow> like (p # ps) cs)
      else (case x of
              [] \<Rightarrow> False
            | c # cs \<Rightarrow> (p = CHR ''_'' \<or> minuscula p = minuscula c) \<and> like ps cs))"

text \<open>
  A route parameter reaches SQLite as text and is compared with, or stored in, a
  column of \<^verbatim>\<open>INTEGER\<close> affinity. \<open>sql_inteiro\<close> is the integer SQLite reads
  from it. The model reads decimal numerals (a non-empty run of digits); any other
  text, such as \<^verbatim>\<open>pesquisar\<close>, equals no \<^verbatim>\<open>ID\<close>.
\<close>

definition valor_digito :: "char \<Rightarrow> nat" where
  "valor_digito c = of_char c - 48"

definition sql_inteiro :: "string \<Rightarrow> nat option" where
  "sql_inteiro s =
     (if s \<noteq> [] \<and> list_all digito s
      then Some (foldl (\<lambda>n c. 10 * n + valor_digito c) 0 s)
      else None)"

text \<open>
  \<^verbatim>\<open>GROUP_CONCAT(t.NUMERO, '||')\<close> over the values of a group that are not
  \<^verbatim>\<open>NULL\<close>: \<^verbatim>\<open>NULL\<close> when there is none.
\<close>

definition group_concat :: "string list \<Rightarrow> string option" where
  "group_concat xs = (if xs = [] then None else Some (join ''||'' xs))"

subsection \<open>The store: schema of database.js\<close>

text \<open>
  \<^verbatim>\<open>Contato (ID INTEGER PRIMARY KEY AUTOINCREMENT, NOME VARCHAR(100) NOT NULL, IDADE INTEGER)\<close>
  and
  \<^verbatim>\<open>Telefone (ID INTEGER PRIMARY KEY AUTOINCREMENT, IDCONTATO INTEGER NOT NULL,
  NUMERO VARCHAR(16) NOT NULL, FOREIGN KEY (IDCONTATO) REFERENCES Contato(ID) ON DELETE CASCADE)\<close>.
  A table is the list of its rows in rowid order. SQLite does not enforce the
  lengths of \<^verbatim>\<open>VARCHAR\<close>. The state also holds the counters of
  \<^verbatim>\<open>AUTOINCREMENT\<close> and the lines of \<^verbatim>\<open>logs/exclusoes.txt\<close>.
\<close>

record contato =
  c_ID :: nat
  c_NOME :: string
  c_IDADE :: "int option"

record telefone =
  t_ID :: nat
  t_IDCONTATO :: nat
  t_NUMERO :: string

record banco =
  Contato :: "contato list"
  Telefone :: "telefone list"
  seq_Contato :: nat
  seq_Telefone :: nat
  exclusoes :: "string list"

definition banco_inicial :: banco where
  "banco_inicial = \<lparr>Contato = [], Telefone = [], seq_Contato = 0, seq_Telefone = 0, exclusoes = []\<rparr>"

text \<open>
  \<^verbatim>\<open>AUTOINCREMENT\<close>: the new rowid is one more than the largest rowid the table
  has ever held (the counter of \<^verbatim>\<open>sqlite_sequence\<close>) and than every rowid in it.
\<close>

definition proximo_id :: "nat \<Rightarrow> nat list \<Rightarrow> nat" where
  "proximo_id seq ids = Suc (fold max ids seq)"

text \<open>\<^verbatim>\<open>INSERT INTO Contato (NOME, IDADE) VALUES (?, ?)\<close>, with \<^verbatim>\<open>this.lastID\<close>.\<close>

definition insert_Contato :: "banco \<Rightarrow> string \<Rightarrow> int option \<Rightarrow> banco \<times> nat" where
  "insert_Contato db n i =
     (let lastID = proximo_id (seq_Contato db) (map c_ID (Contato db))
      in (db\<lparr>Contato := Contato db @ [\<lparr>c_ID = lastID, c_NOME = n, c_IDADE = i\<rparr>],
              seq_Contato := lastID\<rparr>, lastID))"

text \<open>
  \<^verbatim>\<open>INSERT INTO Telefone (IDCONTATO, NUMERO) VALUES (?, ?)\<close>. With
  \<^verbatim>\<open>PRAGMA foreign_keys = ON\<close> the statement fails (\<open>None\<close>) when no row of
  \<^verbatim>\<open>Contato\<close> has the \<^verbatim>\<open>ID\<close>.
\<close>

definition insert_Telefone :: "banco \<Rightarrow> nat \<Rightarrow> string \<Rightarrow> banco option" where
  "insert_Telefone db idcontato numero =
     (if idcontato \<in> set (map c_ID (Contato db))
      then (let novo = proximo_id (seq_Telefone db) (map t_ID (Telefone db))
            in Some (db\<lparr>Telefone := Telefone db @
                           [\<lparr>t_ID = novo, t_IDCONTATO = idcontato, t_NUMERO = numero\<rparr>],
                         seq_Telefone := novo\<rparr>))
      else None)"

text \<open>\<^verbatim>\<open>UPDATE Contato SET NOME = ?, IDADE = ? WHERE ID = ?\<close>, with \<^verbatim>\<open>this.changes\<close>.\<close>

definition update_Contato :: "banco \<Rightarrow> string \<Rightarrow> int option \<Rightarrow> nat \<Rightarrow> banco \<times> nat" where
  "update_Contato db n i k =
     (db\<lparr>Contato := map (\<lambda>c. if c_ID c = k then c\<lparr>c_NOME := n, c_IDADE := i\<rparr> else c) (Contato db)\<rparr>,
      length (filter (\<lambda>c. c_ID c = k) (Contato db)))"

text \<open>\<^verbatim>\<open>DELETE FROM Telefone WHERE IDCONTATO = ?\<close>.\<close>

definition delete_Telefone :: "banco \<Rightarrow> nat \<Rightarrow> banco" where
  "delete_Telefone db k = db\<lparr>Telefone := filter (\<lambda>t. t_IDCONTATO t \<noteq> k) (Telefone db)\<rparr>"

text \<open>
  \<^verbatim>\<open>DELETE FROM Contato WHERE ID = ?\<close>. \<^verbatim>\<open>ON DELETE CASCADE\<close> deletes the rows
  of \<^verbatim>\<open>Telefone\<close> that reference a deleted row.
\<close>

definition delete_Contato :: "banco \<Rightarrow> nat \<Rightarrow> banco" where
  "delete_Contato db k =
     db\<lparr>Contato := filter (\<lambda>c. c_ID c \<noteq> k) (Contato db),
        Telefone := (if k \<in> set (map c_ID (Contato db))
                     then filter (\<lambda>t. t_IDCONTATO t \<noteq> k) (Telefone db)
                     else Telefone db)\<rparr>"

subsection \<open>The grouped queries\<close>

text \<open>
  Every query of the handlers has the shape
  \<^verbatim>\<open>SELECT c.ID, c.NOME, c.IDADE, GROUP_CONCAT(t.NUMERO, '||') AS TELEFONES
  FROM Contato c [LEFT|INNER] JOIN Telefone t ON c.ID = t.IDCONTATO [WHERE ...] GROUP BY c.ID\<close>.
  \<^verbatim>\<open>c.ID\<close> is the primary key, so a group holds the join rows of one row of
  \<^verbatim>\<open>Contato\<close>; the groups come in rowid order and the phones of a group in the
  rowid order of \<^verbatim>\<open>Telefone\<close>.
\<close>

definition telefones_de :: "banco \<Rightarrow> contato \<Rightarrow> telefone list" where
  "telefones_de db c = filter (\<lambda>t. c_ID c = t_IDCONTATO t) (Telefone db)"

text \<open>The join rows of one contact: \<open>None\<close> is the row of \<^verbatim>\<open>NULL\<close>s of a left join.\<close>

definition left_join :: "banco \<Rightarrow> contato \<Rightarrow> telefone option list" where
  "left_join db c = (if telefones_de db c = [] then [None] else map Some (telefones_de db c))"

definition inner_join :: "banco \<Rightarrow> contato \<Rightarrow> telefone option list" where
  "inner_join db c = map Some (telefones_de db c)"

record linha =
  l_ID :: nat
  l_NOME :: string
  l_IDADE :: "int option"
  l_TELEFONES :: "string option"

fun numeros :: "telefone option list \<Rightarrow> string list" where
  "numeros [] = []"
| "numeros (None # ts) = numeros ts"
| "numeros (Some t # ts) = t_NUMERO t # numeros ts"

definition agregar :: "contato \<Rightarrow> telefone option list \<Rightarrow> linha" where
  "agregar c ts =
     \<lparr>l_ID = c_ID c, l_NOME = c_NOME c, l_IDADE = c_IDADE c,
      l_TELEFONES = group_concat (numeros ts)\<rparr>"

definition grupo :: "(contato \<Rightarrow> telefone option \<Rightarrow> bool) \<Rightarrow> telefone option list \<Rightarrow> contato \<Rightarrow> linha list" where
  "grupo onde juncao c =
     (if filter (onde c) juncao = [] then [] else [agregar c (filter (onde c) juncao)])"

definition selecionar ::
  "(banco \<Rightarrow> contato \<Rightarrow> telefone option list) \<Rightarrow> (contato \<Rightarrow> telefone option \<Rightarrow> bool) \<Rightarrow> banco \<Rightarrow> linha list" where
  "selecionar juncao onde db = concat (map (\<lambda>c. grupo onde (juncao db c) c) (Contato db))"

text \<open>\<^verbatim>\<open>ORDER BY c.NOME\<close>: the binary collation, which compares code units.\<close>

definition order_by_NOME :: "linha list \<Rightarrow> linha list" where
  "order_by_NOME rows = sort_key l_NOME rows"

text \<open>
  The object every handler builds from a row:
  \<^verbatim>\<open>{ID, NOME, IDADE, TELEFONES: row.TELEFONES ? row.TELEFONES.split('||') : []}\<close>.
\<close>

record contato_json =
  ID :: nat
  NOME :: string
  IDADE :: "int option"
  TELEFONES :: "string list"

definition telefones_da_linha :: "string option \<Rightarrow> string list" where
  "telefones_da_linha v =
     (case v of None \<Rightarrow> [] | Some s \<Rightarrow> if s = [] then [] else split ''||'' s)"

definition objeto :: "linha \<Rightarrow> contato_json" where
  "objeto row =
     \<lparr>ID = l_ID row, NOME = l_NOME row, IDADE = l_IDADE row,
      TELEFONES = telefones_da_linha (l_TELEFONES row)\<rparr>"

subsection \<open>Requests and responses\<close>

text \<open>
  The messages of the source, in its order: "Nome e obrigatorio", "Nome deve ter no
  maximo 100 caracteres", "Idade deve estar entre 1 e 150 anos", "Pelo menos um
  telefone e obrigatorio", "Nenhum telefone valido fornecido (devem ter 10 ou 11
  digitos)", "Contato nao encontrado", "Erro ao criar telefones", "Erro ao atualizar
  telefones"; \<open>RotaInexistente\<close> is the answer of Express when no route matches.
\<close>

datatype erro =
  NomeObrigatorio
| NomeLongo
| IdadeInvalida
| TelefoneObrigatorio
| NenhumTelefoneValido
| ContatoNaoEncontrado
| ErroCriarTelefones
| ErroAtualizarTelefones
| RotaInexistente

datatype mensagem = Atualizado | Excluido

text \<open>
  A response: \<^verbatim>\<open>res.status(n).json({erro})\<close>, \<^verbatim>\<open>res.status(201).json({id})\<close>,
  \<^verbatim>\<open>res.json({mensagem})\<close>, an array of contacts, one contact,
  \<^verbatim>\<open>res.json({duplicatas})\<close>, or a file download.
\<close>

datatype resposta =
  Erro nat "erro list"
| Criado nat
| Mensagem mensagem
| Lista "contato_json list"
| Objeto contato_json
| Duplicatas "contato_json list"
| Arquivo

fun status :: "resposta \<Rightarrow> nat" where
  "status (Erro n es) = n"
| "status (Criado k) = 201"
| "status (Mensagem m) = 200"
| "status (Lista cs) = 200"
| "status (Objeto c) = 200"
| "status (Duplicatas cs) = 200"
| "status Arquivo = 200"

text \<open>The contacts a response carries.\<close>

fun contatos_da :: "resposta \<Rightarrow> contato_json list" where
  "contatos_da (Lista cs) = cs"
| "contatos_da (Objeto c) = [c]"
| "contatos_da (Duplicatas cs) = cs"
| "contatos_da (Erro n es) = []"
| "contatos_da (Criado k) = []"
| "contatos_da (Mensagem m) = []"
| "contatos_da Arquivo = []"

subsection \<open>Validation\<close>

text \<open>
  \<^verbatim>\<open>validarContato(nome, idade)\<close>. \<^verbatim>\<open>parseInt\<close> of an integer is that integer.
\<close>

definition validarContato :: "string \<Rightarrow> int option \<Rightarrow> erro list" where
  "validarContato nome idade =
     (if nome = [] \<or> length (trim nome) = 0 then [NomeObrigatorio]
      else if length nome > 100 then [NomeLongo]
      else [])
     @ (case idade of
          None \<Rightarrow> []
        | Some idadeNum \<Rightarrow> if idadeNum < 1 \<or> idadeNum > 150 then [IdadeInvalida] else [])"

text \<open>\<^verbatim>\<open>idade ? parseInt(idade) : null\<close>: the number 0 is falsy.\<close>

definition idade_num :: "int option \<Rightarrow> int option" where
  "idade_num idade = (case idade of None \<Rightarrow> None | Some n \<Rightarrow> if n = 0 then None else Some n)"

text \<open>
  \<^verbatim>\<open>gravarLog(id, nome, telefones)\<close> appends \<^verbatim>\<open>logLine\<close> to the file of deletions;
  \<open>agora\<close> is \<^verbatim>\<open>new Date().toISOString()\<close>.
\<close>

definition logLine :: "string \<Rightarrow> string \<Rightarrow> string \<Rightarrow> string list \<Rightarrow> string" where
  "logLine agora id' nome telefones =
     ''['' @ agora @ ''] ID: '' @ id' @ '' | NOME: '' @ nome
     @ '' | TELEFONES: '' @ join '', '' telefones @ [CHR 0x0A]"

definition gravarLog :: "banco \<Rightarrow> string \<Rightarrow> string \<Rightarrow> string \<Rightarrow> string list \<Rightarrow> banco" where
  "gravarLog db agora id' nome telefones =
     db\<lparr>exclusoes := exclusoes db @ [logLine agora id' nome telefones]\<rparr>"

text \<open>
  The body \<^verbatim>\<open>{nome, idade, telefones}\<close> of a request. An absent or \<^verbatim>\<open>null\<close>
  name is the empty string and an absent list of phones the empty list: the
  handlers treat them alike (\<^verbatim>\<open>!nome\<close>, \<^verbatim>\<open>!telefones || telefones.length === 0\<close>).
  \<open>idade\<close> is \<^verbatim>\<open>null\<close> or an integer, as the client sends it.
\<close>

record corpo =
  nome :: string
  idade :: "int option"
  telefones :: "string list"

subsection \<open>The handlers\<close>

text \<open>
  A handler is one step: it takes the store and the request and returns the new
  store and the response. The statements of a request run in the order the
  handler issues them; failures of the disk are not modelled.
\<close>

text \<open>\<^verbatim>\<open>GET /api/contatos\<close>.\<close>

definition get_contatos :: "banco \<Rightarrow> resposta" where
  "get_contatos db = Lista (map objeto (order_by_NOME (selecionar left_join (\<lambda>c t. True) db)))"

text \<open>\<^verbatim>\<open>GET /api/contatos/:id\<close>: \<^verbatim>\<open>db.get\<close> gives the first row, if any.\<close>

definition get_contato :: "banco \<Rightarrow> string \<Rightarrow> resposta" where
  "get_contato db id' =
     (case sql_inteiro id' of
        None \<Rightarrow> Erro 404 [ContatoNaoEncontrado]
      | Some k \<Rightarrow>
          (case selecionar left_join (\<lambda>c t. c_ID c = k) db of
             [] \<Rightarrow> Erro 404 [ContatoNaoEncontrado]
           | row # _ \<Rightarrow> Objeto (objeto row)))"

text \<open>
  The \<^verbatim>\<open>WHERE\<close> clause of the search:
  \<^verbatim>\<open>c.NOME LIKE ? OR SQL_NUMERO_NORMALIZADO LIKE ?\<close>; on the \<^verbatim>\<open>NULL\<close> row of a
  contact without phones the second operand is \<^verbatim>\<open>NULL\<close>.
\<close>

definition numero_like :: "string \<Rightarrow> telefone option \<Rightarrow> bool" where
  "numero_like p t =
     (case t of None \<Rightarrow> False | Some r \<Rightarrow> like p (SQL_NUMERO_NORMALIZADO (t_NUMERO r)))"

definition onde_pesquisar :: "string \<Rightarrow> string \<Rightarrow> contato \<Rightarrow> telefone option \<Rightarrow> bool" where
  "onde_pesquisar p1 p2 c t \<longleftrightarrow> like p1 (c_NOME c) \<or> numero_like p2 t"

text \<open>
  The handler of \<^verbatim>\<open>GET /api/contatos/pesquisar?termo=\<close>; an absent \<^verbatim>\<open>termo\<close> is
  the empty string. \<^verbatim>\<open>SELECT DISTINCT\<close> drops repeated rows.
\<close>

definition pesquisar_contatos :: "banco \<Rightarrow> string \<Rightarrow> resposta" where
  "pesquisar_contatos db termo =
     (if trim termo = [] then Lista []
      else (let termoNormalizado = normalizarNumero termo;
                parametros = (''%'' @ termo @ ''%'', ''%'' @ termoNormalizado @ ''%'')
            in Lista (map objeto (order_by_NOME (remdups
                 (selecionar left_join (onde_pesquisar (fst parametros) (snd parametros)) db))))))"

text \<open>
  The inserts of the valid phones (\<^verbatim>\<open>telefonesValidos.map(...)\<close> and
  \<^verbatim>\<open>Promise.all\<close>): every insert is issued; the flag tells whether all succeeded.
\<close>

fun inserir_telefones :: "banco \<Rightarrow> nat \<Rightarrow> string list \<Rightarrow> banco \<times> bool" where
  "inserir_telefones db k [] = (db, True)"
| "inserir_telefones db k (tel # tels) =
     (case insert_Telefone db k (sanitizar tel) of
        None \<Rightarrow> (fst (inserir_telefones db k tels), False)
      | Some db' \<Rightarrow> inserir_telefones db' k tels)"

text \<open>\<^verbatim>\<open>POST /api/contatos\<close>.\<close>

definition post_contatos :: "banco \<Rightarrow> corpo \<Rightarrow> banco \<times> resposta" where
  "post_contatos db req =
     (let errosContato = validarContato (nome req) (idade req) in
      if length errosContato > 0 then (db, Erro 400 errosContato)
      else if telefones req = [] then (db, Erro 400 [TelefoneObrigatorio])
      else
        (let telefonesValidos =
               filter (\<lambda>tel. let normalizado = normalizarNumero tel
                             in length normalizado \<ge> 10 \<and> length normalizado \<le> 11)
                 (telefones req)
         in if length telefonesValidos = 0 then (db, Erro 400 [NenhumTelefoneValido])
            else
              (let nomeLimpo = sanitizar (nome req);
                   idadeNum = idade_num (idade req);
                   (db1, contatoId) = insert_Contato db nomeLimpo idadeNum;
                   (db2, ok) = inserir_telefones db1 contatoId telefonesValidos
               in if ok then (db2, Criado contatoId)
                  else (db2, Erro 500 [ErroCriarTelefones]))))"

text \<open>\<^verbatim>\<open>PUT /api/contatos/:id\<close>.\<close>

definition put_contato :: "banco \<Rightarrow> string \<Rightarrow> corpo \<Rightarrow> banco \<times> resposta" where
  "put_contato db id' req =
     (let errosContato = validarContato (nome req) (idade req) in
      if length errosContato > 0 then (db, Erro 400 errosContato)
      else if telefones req = [] then (db, Erro 400 [TelefoneObrigatorio])
      else
        (let telefonesValidos = filter validarTelefone (telefones req)
         in if length telefonesValidos = 0 then (db, Erro 400 [NenhumTelefoneValido])
            else
              (let nomeLimpo = sanitizar (nome req);
                   idadeNum = idade_num (idade req)
               in case sql_inteiro id' of
                    None \<Rightarrow> (db, Erro 404 [ContatoNaoEncontrado])
                  | Some k \<Rightarrow>
                      (let (db1, changes) = update_Contato db nomeLimpo idadeNum k
                       in if changes = 0 then (db1, Erro 404 [ContatoNaoEncontrado])
                          else
                            (let db2 = delete_Telefone db1 k;
                                 (db3, ok) = inserir_telefones db2 k telefonesValidos
                             in if ok then (db3, Mensagem Atualizado)
                                else (db3, Erro 500 [ErroAtualizarTelefones]))))))"

text \<open>
  \<^verbatim>\<open>DELETE /api/contatos/:id\<close>: look the contact up, write the log line, delete
  the row of \<^verbatim>\<open>Contato\<close>.
\<close>

definition delete_contato :: "banco \<Rightarrow> string \<Rightarrow> string \<Rightarrow> banco \<times> resposta" where
  "delete_contato db agora id' =
     (case sql_inteiro id' of
        None \<Rightarrow> (db, Erro 404 [ContatoNaoEncontrado])
      | Some k \<Rightarrow>
          (case selecionar left_join (\<lambda>c t. c_ID c = k) db of
             [] \<Rightarrow> (db, Erro 404 [ContatoNaoEncontrado])
           | row # _ \<Rightarrow>
               (let telefones = telefones_da_linha (l_TELEFONES row);
                    db1 = gravarLog db agora id' (l_NOME row) telefones;
                    db2 = delete_Contato db1 k
                in (db2, Mensagem Excluido))))"

text \<open>
  \<^verbatim>\<open>POST /api/telefones/verificar\<close>:
  \<^verbatim>\<open>WHERE SQL_NUMERO_NORMALIZADO IN (?, ..., ?)\<close> over an inner join.
\<close>

definition numero_em :: "string list \<Rightarrow> telefone option \<Rightarrow> bool" where
  "numero_em ns t =
     (case t of None \<Rightarrow> False | Some r \<Rightarrow> SQL_NUMERO_NORMALIZADO (t_NUMERO r) \<in> set ns)"

definition verificar_telefones :: "banco \<Rightarrow> corpo \<Rightarrow> resposta" where
  "verificar_telefones db req =
     (if telefones req = [] then Duplicatas []
      else (let numerosNormalizados = filter (\<lambda>n. length n > 0) (map normalizarNumero (telefones req))
            in if length numerosNormalizados = 0 then Duplicatas []
               else Duplicatas (map objeto (remdups
                      (selecionar inner_join (\<lambda>c t. numero_em numerosNormalizados t) db)))))"

subsection \<open>Routing\<close>

text \<open>
  Express tries the routes in the order of their registration and runs the first
  one whose method and path match; none of the handlers passes the request on. A
  path is the list of its segments, spelled as in the source; \<^verbatim>\<open>:id\<close> matches
  one non-empty segment.
\<close>

datatype metodo = GET | POST | PUT | DELETE

datatype segmento = Fixo string | Parametro

fun casa :: "segmento list \<Rightarrow> string list \<Rightarrow> string option" where
  "casa [] [] = Some []"
| "casa (Fixo s # ps) (x # xs) = (if s = x then casa ps xs else None)"
| "casa (Parametro # ps) (x # xs) =
     (if x = [] then None else (case casa ps xs of None \<Rightarrow> None | Some _ \<Rightarrow> Some x))"
| "casa _ _ = None"

datatype manipulador =
  ListarContatos | ContatoPorId | PesquisarContatos | CriarContato | AtualizarContato
| ExcluirContato | VerificarTelefones | ExportDb | Export

text \<open>The routes of the server, in the order of the source.\<close>

definition rotas :: "(metodo \<times> segmento list \<times> manipulador) list" where
  "rotas =
     [(GET, [Fixo ''api'', Fixo ''contatos''], ListarContatos),
      (GET, [Fixo ''api'', Fixo ''contatos'', Parametro], ContatoPorId),
      (GET, [Fixo ''api'', Fixo ''contatos'', Fixo ''pesquisar''], PesquisarContatos),
      (POST, [Fixo ''api'', Fixo ''contatos''], CriarContato),
      (PUT, [Fixo ''api'', Fixo ''contatos'', Parametro], AtualizarContato),
      (DELETE, [Fixo ''api'', Fixo ''contatos'', Parametro], ExcluirContato),
      (POST, [Fixo ''api'', Fixo ''telefones'', Fixo ''verificar''], VerificarTelefones),
      (GET, [Fixo ''export-db''], ExportDb),
      (GET, [Fixo ''export''], Export)]"

fun despachar ::
  "(metodo \<times> segmento list \<times> manipulador) list \<Rightarrow> metodo \<Rightarrow> string list \<Rightarrow> (manipulador \<times> string) option" where
  "despachar [] m p = None"
| "despachar ((m', padrao, h) # rs) m p =
     (if m' = m
      then (case casa padrao p of None \<Rightarrow> despachar rs m p | Some v \<Rightarrow> Some (h, v))
      else despachar rs m p)"

record requisicao =
  metodo :: metodo
  caminho :: "string list"
  termo :: string
  corpo :: corpo

text \<open>
  One request served: \<open>agora\<close> is the time of the clock. The two exports only
  read the store and answer with a file.
\<close>

definition servidor :: "banco \<Rightarrow> string \<Rightarrow> requisicao \<Rightarrow> banco \<times> resposta" where
  "servidor db agora req =
     (case despachar rotas (metodo req) (caminho req) of
        None \<Rightarrow> (db, Erro 404 [RotaInexistente])
      | Some (h, id') \<Rightarrow>
          (case h of
             ListarContatos \<Rightarrow> (db, get_contatos db)
           | ContatoPorId \<Rightarrow> (db, get_contato db id')
           | PesquisarContatos \<Rightarrow> (db, pesquisar_contatos db (termo req))
           | CriarContato \<Rightarrow> post_contatos db (corpo req)
           | AtualizarContato \<Rightarrow> put_contato db id' (corpo req)
           | ExcluirContato \<Rightarrow> delete_contato db agora id'
           | VerificarTelefones \<Rightarrow> (db, verificar_telefones db (corpo req))
           | ExportDb \<Rightarrow> (db, Arquivo)
           | Export \<Rightarrow> (db, Arquivo)))"

subsection \<open>Referential integrity and reachable states\<close>

text \<open>
  Every row of \<^verbatim>\<open>Telefone\<close> references a row of \<^verbatim>\<open>Contato\<close>.
\<close>

definition integridade :: "banco \<Rightarrow> bool" where
  "integridade db \<longleftrightarrow> (\<forall>t\<in>set (Telefone db). t_IDCONTATO t \<in> set (map c_ID (Contato db)))"

text \<open>
  The states of the store that the server reaches from the empty schema, whatever
  the requests and the clock: by whole requests, one at a time, and also statement
  by statement, which covers the requests of several clients whose statements
  interleave.
\<close>

inductive alcancavel :: "banco \<Rightarrow> bool" where
  inicial: "alcancavel banco_inicial"
| passo: "alcancavel db \<Longrightarrow> alcancavel (fst (servidor db agora req))"
| passo_insert_Contato: "alcancavel db \<Longrightarrow> alcancavel (fst (insert_Contato db n a))"
| passo_insert_Telefone: "alcancavel db \<Longrightarrow> insert_Telefone db k numero = Some db' \<Longrightarrow> alcancavel db'"
| passo_update_Contato: "alcancavel db \<Longrightarrow> alcancavel (fst (update_Contato db n a k))"
| passo_delete_Telefone: "alcancavel db \<Longrightarrow> alcancavel (delete_Telefone db k)"
| passo_delete_Contato: "alcancavel db \<Longrightarrow> alcancavel (delete_Contato db k)"
| passo_gravarLog: "alcancavel db \<Longrightarrow> alcancavel (gravarLog db agora i n ts)"

text \<open>
  From the specification, the object \<^verbatim>\<open>{id, name, age|null, phones: string[]}\<close> of
  a contact: the columns of its row and the stored numbers of its phones.
\<close>

definition objeto_do_contato :: "banco \<Rightarrow> contato \<Rightarrow> contato_json" where
  "objeto_do_contato db c =
     \<lparr>ID = c_ID c, NOME = c_NOME c, IDADE = c_IDADE c, TELEFONES = map t_NUMERO (telefones_de db c)\<rparr>"

section \<open>Properties\<close>

subsection \<open>Normalisation\<close>

lemma filter_digito_dropWhile:
  "filter digito (dropWhile (\<lambda>d. \<not> digito d) cs) = filter digito cs"
  by (induction cs) auto

lemma normalizarNumero_filter: "normalizarNumero s = filter digito s"
  by (induction s rule: normalizarNumero.induct) (auto simp: filter_digito_dropWhile)

lemma normalizarTelefone_filter: "normalizarTelefone s = filter digito s"
  by (induction s) auto

text \<open>
  C8. Both normalisation functions (\<open>normalizarNumero\<close> of the server and
  \<open>normalizarTelefone\<close> of the client) return the digit-only subsequence of their
  input: every character that is not a digit is removed and the digits keep their
  order. Hence both are idempotent.
\<close>

theorem normalizar_digitos_idempotente:
  "normalizarNumero s = filter digito s
   \<and> normalizarTelefone s = filter digito s
   \<and> normalizarNumero (normalizarNumero s) = normalizarNumero s
   \<and> normalizarTelefone (normalizarTelefone s) = normalizarTelefone s"
  by (simp add: normalizarNumero_filter normalizarTelefone_filter)

subsection \<open>Inserting the phones of a request\<close>

lemma insert_Telefone_Some:
  "insert_Telefone db k n = Some db' \<Longrightarrow>
     Contato db' = Contato db \<and> exclusoes db' = exclusoes db \<and> seq_Contato db' = seq_Contato db
     \<and> k \<in> set (map c_ID (Contato db))
     \<and> (\<exists>i. Telefone db' = Telefone db @ [\<lparr>t_ID = i, t_IDCONTATO = k, t_NUMERO = n\<rparr>])"
  by (auto simp: insert_Telefone_def Let_def split: if_splits)


lemma inserir_telefones_Contato [simp]:
  "Contato (fst (inserir_telefones db k tels)) = Contato db"
  by (induction tels arbitrary: db) (auto split: option.splits dest: insert_Telefone_Some)

lemma inserir_telefones_exclusoes [simp]:
  "exclusoes (fst (inserir_telefones db k tels)) = exclusoes db"
  by (induction tels arbitrary: db) (auto split: option.splits dest: insert_Telefone_Some)

lemma inserir_telefones_integridade:
  "integridade db \<Longrightarrow> integridade (fst (inserir_telefones db k tels))"
proof (induction tels arbitrary: db)
  case Nil
  then show ?case by simp
next
  case (Cons tel tels)
  show ?case
  proof (cases "insert_Telefone db k (sanitizar tel)")
    case None
    then show ?thesis using Cons by simp
  next
    case (Some db')
    from insert_Telefone_Some [OF Some] Cons.prems have "integridade db'"
      by (auto simp: integridade_def)
    then show ?thesis using Some Cons.IH by simp
  qed
qed





subsection \<open>The statements of the store keep the references\<close>

lemma insert_Contato_integridade:
  "integridade db \<Longrightarrow> integridade (fst (insert_Contato db n a))"
  by (auto simp: integridade_def insert_Contato_def Let_def)

lemma post_contatos_integridade:
  "integridade db \<Longrightarrow> integridade (fst (post_contatos db req))"
  by (simp add: post_contatos_def Let_def case_prod_beta
      inserir_telefones_integridade insert_Contato_integridade)

lemma update_Contato_ids [simp]:
  "map c_ID (Contato (fst (update_Contato db n a k))) = map c_ID (Contato db)"
  by (simp add: update_Contato_def comp_def if_distrib [of c_ID] cong: if_cong)

lemma update_Contato_Telefone [simp]:
  "Telefone (fst (update_Contato db n a k)) = Telefone db"
  by (simp add: update_Contato_def)

lemma put_contato_integridade:
  "integridade db \<Longrightarrow> integridade (fst (put_contato db i req))"
proof -
  assume a: "integridade db"
  have u: "integridade (fst (update_Contato db n b k))" for n b k
    using a by (simp add: integridade_def)
  have d: "integridade (delete_Telefone (fst (update_Contato db n b k)) k)" for n b k
    using u [of n b k] by (simp add: integridade_def delete_Telefone_def)
  show ?thesis
    using a u d
    by (simp add: put_contato_def Let_def case_prod_beta inserir_telefones_integridade
        split: option.splits)
qed

lemma delete_Contato_integridade:
  "integridade db \<Longrightarrow> integridade (delete_Contato db k)"
  by (auto simp: integridade_def delete_Contato_def)

lemma delete_contato_integridade:
  "integridade db \<Longrightarrow> integridade (fst (delete_contato db agora i))"
proof -
  assume a: "integridade db"
  have "integridade (gravarLog db agora i n ts)" for n ts
    using a by (simp add: integridade_def gravarLog_def)
  then show ?thesis
    using a
    by (simp add: delete_contato_def Let_def delete_Contato_integridade
        split: option.splits list.splits)
qed

lemma servidor_integridade:
  "integridade db \<Longrightarrow> integridade (fst (servidor db agora req))"
  by (simp add: servidor_def post_contatos_integridade put_contato_integridade
      delete_contato_integridade split: option.splits prod.splits manipulador.splits)

subsection \<open>The rows and objects of the queries\<close>

lemma em_selecionar:
  "r \<in> set (selecionar j w db) \<longleftrightarrow>
     (\<exists>c\<in>set (Contato db). filter (w c) (j db c) \<noteq> [] \<and> r = agregar c (filter (w c) (j db c)))"
  by (auto simp: selecionar_def grupo_def split: if_splits)

lemma left_join_nao_vazio [simp]: "left_join db c \<noteq> []"
  by (simp add: left_join_def)

lemma numeros_left_join [simp]: "numeros (left_join db c) = map t_NUMERO (telefones_de db c)"
proof -
  have "numeros (map Some ts) = map t_NUMERO ts" for ts
    by (induction ts) auto
  then show ?thesis by (simp add: left_join_def)
qed


lemma selecionar_por_id_aux:
  "concat (map (\<lambda>c. grupo (\<lambda>c t. c_ID c = k) (left_join db c) c) cs)
     = map (\<lambda>c. agregar c (left_join db c)) (filter (\<lambda>c. c_ID c = k) cs)"
  by (induction cs) (auto simp: grupo_def)

lemma selecionar_por_id:
  "selecionar left_join (\<lambda>c t. c_ID c = k) db
     = map (\<lambda>c. agregar c (left_join db c)) (filter (\<lambda>c. c_ID c = k) (Contato db))"
  by (simp add: selecionar_def selecionar_por_id_aux)

lemma filter_id_vazio: "filter (\<lambda>c. c_ID c = k) cs = [] \<longleftrightarrow> k \<notin> set (map c_ID cs)"
  by (induction cs) auto

lemma ID_objeto [simp]: "ID (objeto r) = l_ID r"
  by (simp add: objeto_def)

lemma ids_selecionar: "r \<in> set (selecionar j w db) \<Longrightarrow> l_ID r \<in> set (map c_ID (Contato db))"
  by (auto simp: em_selecionar agregar_def)

lemma get_contatos_ids:
  "r \<in> set (contatos_da (get_contatos db)) \<Longrightarrow> ID r \<in> set (map c_ID (Contato db))"
  by (auto simp: get_contatos_def order_by_NOME_def dest!: ids_selecionar)

lemma get_contato_Objeto:
  "get_contato db i = Objeto r \<longleftrightarrow>
     (\<exists>k row rows. sql_inteiro i = Some k
        \<and> selecionar left_join (\<lambda>c t. c_ID c = k) db = row # rows \<and> r = objeto row)"
  by (auto simp: get_contato_def split: option.splits list.splits)

lemma get_contato_ids:
  "r \<in> set (contatos_da (get_contato db i)) \<Longrightarrow> ID r \<in> set (map c_ID (Contato db))"
proof -
  assume a: "r \<in> set (contatos_da (get_contato db i))"
  then have "get_contato db i = Objeto r"
    by (auto simp: get_contato_def split: option.splits list.splits)
  then obtain k row rows where
    s: "selecionar left_join (\<lambda>c t. c_ID c = k) db = row # rows" and r: "r = objeto row"
    by (auto simp: get_contato_Objeto)
  from s have "row \<in> set (selecionar left_join (\<lambda>c t. c_ID c = k) db)" by simp
  then show ?thesis using r by (auto dest!: ids_selecionar)
qed

lemma pesquisar_ids:
  "r \<in> set (contatos_da (pesquisar_contatos db t)) \<Longrightarrow> ID r \<in> set (map c_ID (Contato db))"
  by (auto simp: pesquisar_contatos_def order_by_NOME_def Let_def split: if_splits dest!: ids_selecionar)

lemma verificar_ids:
  "r \<in> set (contatos_da (verificar_telefones db req)) \<Longrightarrow> ID r \<in> set (map c_ID (Contato db))"
  by (auto simp: verificar_telefones_def Let_def split: if_splits dest!: ids_selecionar)

lemma filter_Cons_em:
  "filter P xs = y # ys \<Longrightarrow> y \<in> set xs \<and> P y"
proof -
  assume "filter P xs = y # ys"
  then have "y \<in> set (filter P xs)" by simp
  then show ?thesis by simp
qed

lemma delete_contato_existente:
  assumes i: "sql_inteiro i = Some k" and e: "k \<in> set (map c_ID (Contato db))"
  shows "\<exists>r0. get_contato db i = Objeto r0
           \<and> (\<exists>c\<in>set (Contato db). c_ID c = k \<and> NOME r0 = c_NOME c
                 \<and> TELEFONES r0 = telefones_da_linha (group_concat (map t_NUMERO (telefones_de db c))))
           \<and> delete_contato db agora i
               = (delete_Contato (gravarLog db agora i (NOME r0) (TELEFONES r0)) k, Mensagem Excluido)"
proof -
  from e have "filter (\<lambda>c. c_ID c = k) (Contato db) \<noteq> []"
    by (simp add: filter_id_vazio)
  then obtain c cs where f: "filter (\<lambda>c. c_ID c = k) (Contato db) = c # cs"
    by (cases "filter (\<lambda>c. c_ID c = k) (Contato db)") auto
  from filter_Cons_em [OF f] have c: "c \<in> set (Contato db)" "c_ID c = k" by auto
  let ?row = "agregar c (left_join db c)"
  have s: "selecionar left_join (\<lambda>c t. c_ID c = k) db = ?row # map (\<lambda>c. agregar c (left_join db c)) cs"
    by (simp add: selecionar_por_id f)
  have g: "get_contato db i = Objeto (objeto ?row)"
    by (simp add: get_contato_def i s)
  have n: "NOME (objeto ?row) = c_NOME c"
    and t: "TELEFONES (objeto ?row) = telefones_da_linha (group_concat (map t_NUMERO (telefones_de db c)))"
    by (simp_all add: objeto_def agregar_def)
  have d: "delete_contato db agora i
             = (delete_Contato (gravarLog db agora i (NOME (objeto ?row)) (TELEFONES (objeto ?row))) k,
                Mensagem Excluido)"
    by (simp add: delete_contato_def i s Let_def objeto_def)
  from g c n t d show ?thesis by blast
qed

lemma delete_Contato_gravarLog:
  "k \<in> set (map c_ID (Contato db)) \<Longrightarrow>
     delete_Contato (gravarLog db agora i n ts) k
       = db\<lparr>Contato := filter (\<lambda>c. c_ID c \<noteq> k) (Contato db),
             Telefone := filter (\<lambda>t. t_IDCONTATO t \<noteq> k) (Telefone db),
             exclusoes := exclusoes db @ [logLine agora i n ts]\<rparr>"
  by (simp add: delete_Contato_def gravarLog_def)

lemma delete_contato_inexistente:
  assumes i: "sql_inteiro i = Some k" and e: "k \<notin> set (map c_ID (Contato db))"
  shows "delete_contato db agora i = (db, Erro 404 [ContatoNaoEncontrado])"
proof -
  from e have "filter (\<lambda>c. c_ID c = k) (Contato db) = []"
    by (simp add: filter_id_vazio)
  then show ?thesis
    by (simp add: delete_contato_def i selecionar_por_id)
qed


lemma objeto_agregar:
  "objeto (agregar c ts) =
     \<lparr>ID = c_ID c, NOME = c_NOME c, IDADE = c_IDADE c,
      TELEFONES = telefones_da_linha (group_concat (numeros ts))\<rparr>"
  by (simp add: objeto_def agregar_def)


subsection \<open>The branches of create and update\<close>









lemma insert_Contato_Telefone [simp]:
  "Telefone (fst (insert_Contato db n a)) = Telefone db"
  by (simp add: insert_Contato_def Let_def)




subsection \<open>Creating a contact without a valid phone\<close>

text \<open>
  C5. When no phone of a create request has ten or eleven digits after
  normalisation, \<^verbatim>\<open>POST /api/contatos\<close> answers 400 and the store is unchanged:
  no row of \<^verbatim>\<open>Contato\<close> or \<^verbatim>\<open>Telefone\<close> is written.
\<close>

theorem criar_sem_telefone_valido:
  assumes "\<forall>tel\<in>set (telefones req). length (normalizarNumero tel) \<noteq> 10 \<and> length (normalizarNumero tel) \<noteq> 11"
  shows "fst (post_contatos db req) = db \<and> status (snd (post_contatos db req)) = 400"
proof -
  have "filter (\<lambda>tel. let normalizado = normalizarNumero tel
                       in length normalizado \<ge> 10 \<and> length normalizado \<le> 11) (telefones req) = []"
    using assms by (auto simp: filter_empty_conv Let_def)
  then show ?thesis
    by (simp add: post_contatos_def Let_def)
qed

text \<open>The request of the specification: one phone of three digits, \<^verbatim>\<open>123\<close>.\<close>

theorem criar_sem_telefone_valido_witness:
  "length (normalizarNumero ''123'') = 3
   \<and> fst (post_contatos banco_inicial \<lparr>nome = ''Ana'', idade = Some 30, telefones = [''123'']\<rparr>) = banco_inicial
   \<and> status (snd (post_contatos banco_inicial \<lparr>nome = ''Ana'', idade = Some 30, telefones = [''123'']\<rparr>)) = 400
   \<and> snd (post_contatos banco_inicial \<lparr>nome = ''Ana'', idade = Some 30, telefones = [''123'']\<rparr>)
       = Erro 400 [NenhumTelefoneValido]"
proof -
  have n: "length (normalizarNumero ''123'') = 3"
    by code_simp
  then have h: "\<forall>tel\<in>set (telefones \<lparr>nome = ''Ana'', idade = Some 30, telefones = [''123'']\<rparr>).
           length (normalizarNumero tel) \<noteq> 10 \<and> length (normalizarNumero tel) \<noteq> 11"
    by simp
  have e: "snd (post_contatos banco_inicial \<lparr>nome = ''Ana'', idade = Some 30, telefones = [''123'']\<rparr>)
       = Erro 400 [NenhumTelefoneValido]"
    by code_simp
  from criar_sem_telefone_valido [OF h, of banco_inicial] n e show ?thesis
    by simp
qed

subsection \<open>Invalid phones in a request\<close>




subsection \<open>Updating a contact\<close>




subsection \<open>Referential integrity\<close>

text \<open>
  C3. In every state that the server reaches from the empty schema, whatever the
  requests (create, update, delete and the reading routes) and the clock, every
  row of \<^verbatim>\<open>Telefone\<close> references an existing row of \<^verbatim>\<open>Contato\<close>: no request,
  the delete with its cascade included, and no single statement of a request
  leaves an orphan phone.
\<close>

theorem integridade_referencial: "alcancavel db \<Longrightarrow> integridade db"
proof (induction rule: alcancavel.induct)
  case inicial
  show ?case by (simp add: integridade_def banco_inicial_def)
next
  case (passo db agora req)
  then show ?case by (simp add: servidor_integridade)
next
  case (passo_insert_Contato db n a)
  then show ?case by (simp add: insert_Contato_integridade)
next
  case (passo_insert_Telefone db k numero db')
  from insert_Telefone_Some [OF passo_insert_Telefone.hyps(2)] passo_insert_Telefone.IH
  show ?case by (auto simp: integridade_def)
next
  case (passo_update_Contato db n a k)
  then show ?case by (simp add: integridade_def)
next
  case (passo_delete_Telefone db k)
  then show ?case by (simp add: integridade_def delete_Telefone_def)
next
  case (passo_delete_Contato db k)
  then show ?case by (simp add: delete_Contato_integridade)
next
  case (passo_gravarLog db agora i n ts)
  then show ?case by (simp add: integridade_def gravarLog_def)
qed

text \<open>
  A reachable state with two phones, after one \<^verbatim>\<open>POST /api/contatos\<close>; the
  \<^verbatim>\<open>DELETE\<close> of the contact then empties \<^verbatim>\<open>Telefone\<close>.
\<close>

theorem integridade_referencial_witness:
  "alcancavel (fst (servidor banco_inicial ''2026-01-01T00:00:00.000Z''
      \<lparr>metodo = POST, caminho = [''api'', ''contatos''], termo = [],
       corpo = \<lparr>nome = ''Ana'', idade = Some 30, telefones = [''(11) 98765-4321'', ''1133334444'']\<rparr>\<rparr>))
   \<and> integridade (fst (servidor banco_inicial ''2026-01-01T00:00:00.000Z''
      \<lparr>metodo = POST, caminho = [''api'', ''contatos''], termo = [],
       corpo = \<lparr>nome = ''Ana'', idade = Some 30, telefones = [''(11) 98765-4321'', ''1133334444'']\<rparr>\<rparr>))
   \<and> fst (servidor banco_inicial ''2026-01-01T00:00:00.000Z''
      \<lparr>metodo = POST, caminho = [''api'', ''contatos''], termo = [],
       corpo = \<lparr>nome = ''Ana'', idade = Some 30, telefones = [''(11) 98765-4321'', ''1133334444'']\<rparr>\<rparr>)
     = \<lparr>Contato = [\<lparr>c_ID = 1, c_NOME = ''Ana'', c_IDADE = Some 30\<rparr>],
        Telefone = [\<lparr>t_ID = 1, t_IDCONTATO = 1, t_NUMERO = ''(11) 98765-4321''\<rparr>,
                    \<lparr>t_ID = 2, t_IDCONTATO = 1, t_NUMERO = ''1133334444''\<rparr>],
        seq_Contato = 1, seq_Telefone = 2, exclusoes = []\<rparr>
   \<and> Telefone (fst (servidor
        \<lparr>Contato = [\<lparr>c_ID = 1, c_NOME = ''Ana'', c_IDADE = Some 30\<rparr>],
         Telefone = [\<lparr>t_ID = 1, t_IDCONTATO = 1, t_NUMERO = ''(11) 98765-4321''\<rparr>,
                     \<lparr>t_ID = 2, t_IDCONTATO = 1, t_NUMERO = ''1133334444''\<rparr>],
         seq_Contato = 1, seq_Telefone = 2, exclusoes = []\<rparr>
        ''2026-01-02T00:00:00.000Z''
        \<lparr>metodo = DELETE, caminho = [''api'', ''contatos'', ''1''], termo = [],
         corpo = \<lparr>nome = [], idade = None, telefones = []\<rparr>\<rparr>)) = []"
proof -
  let ?db = "fst (servidor banco_inicial ''2026-01-01T00:00:00.000Z''
      \<lparr>metodo = POST, caminho = [''api'', ''contatos''], termo = [],
       corpo = \<lparr>nome = ''Ana'', idade = Some 30, telefones = [''(11) 98765-4321'', ''1133334444'']\<rparr>\<rparr>)"
  have a: "alcancavel ?db"
    by (rule alcancavel.passo [OF alcancavel.inicial])
  have v: "?db = \<lparr>Contato = [\<lparr>c_ID = 1, c_NOME = ''Ana'', c_IDADE = Some 30\<rparr>],
        Telefone = [\<lparr>t_ID = 1, t_IDCONTATO = 1, t_NUMERO = ''(11) 98765-4321''\<rparr>,
                    \<lparr>t_ID = 2, t_IDCONTATO = 1, t_NUMERO = ''1133334444''\<rparr>],
        seq_Contato = 1, seq_Telefone = 2, exclusoes = []\<rparr>"
    by code_simp
  have d: "Telefone (fst (servidor
        \<lparr>Contato = [\<lparr>c_ID = 1, c_NOME = ''Ana'', c_IDADE = Some 30\<rparr>],
         Telefone = [\<lparr>t_ID = 1, t_IDCONTATO = 1, t_NUMERO = ''(11) 98765-4321''\<rparr>,
                     \<lparr>t_ID = 2, t_IDCONTATO = 1, t_NUMERO = ''1133334444''\<rparr>],
         seq_Contato = 1, seq_Telefone = 2, exclusoes = []\<rparr>
        ''2026-01-02T00:00:00.000Z''
        \<lparr>metodo = DELETE, caminho = [''api'', ''contatos'', ''1''], termo = [],
         corpo = \<lparr>nome = [], idade = None, telefones = []\<rparr>\<rparr>)) = []"
    by code_simp
  from a integridade_referencial [OF a] v d show ?thesis
    by blast
qed

subsection \<open>Deleting a contact\<close>

text \<open>
  What holds of \<^verbatim>\<open>DELETE /api/contatos/:id\<close> for a numeric \<^verbatim>\<open>:id\<close>. When a contact
  has that \<^verbatim>\<open>ID\<close>, the handler answers "Contato excluido", first appends exactly
  one line to the log of deletions and then deletes the contact. The line is
  \<open>logLine\<close> of the clock, the \<^verbatim>\<open>:id\<close>, and the name and the list of phones that
  \<^verbatim>\<open>GET /api/contatos/:id\<close> reported before the deletion: the stored name, and the
  stored phones of the contact as every handler reads them (joined by
  \<^verbatim>\<open>GROUP_CONCAT\<close> and split at \<^verbatim>\<open>||\<close>). Afterwards the row of the contact and all
  its rows of \<^verbatim>\<open>Telefone\<close> are gone, the other rows remain, and the contact is
  returned by none of list, get-by-id, search and duplicate-check. When no contact
  has that \<^verbatim>\<open>ID\<close>, the answer is 404 and the store and the log are unchanged.
\<close>

lemma excluir_contato:
  assumes i: "sql_inteiro i = Some k"
  shows "(k \<in> set (map c_ID (Contato db)) \<longrightarrow>
            (\<exists>r0. get_contato db i = Objeto r0
               \<and> (\<exists>c\<in>set (Contato db). c_ID c = k \<and> NOME r0 = c_NOME c
                     \<and> TELEFONES r0 = telefones_da_linha (group_concat (map t_NUMERO (telefones_de db c))))
               \<and> delete_contato db agora i
                   = (delete_Contato (gravarLog db agora i (NOME r0) (TELEFONES r0)) k, Mensagem Excluido)
               \<and> exclusoes (fst (delete_contato db agora i))
                   = exclusoes db @ [logLine agora i (NOME r0) (TELEFONES r0)])
            \<and> Contato (fst (delete_contato db agora i)) = filter (\<lambda>c. c_ID c \<noteq> k) (Contato db)
            \<and> Telefone (fst (delete_contato db agora i)) = filter (\<lambda>t. t_IDCONTATO t \<noteq> k) (Telefone db)
            \<and> k \<notin> ID ` set (contatos_da (get_contatos (fst (delete_contato db agora i))))
            \<and> get_contato (fst (delete_contato db agora i)) i = Erro 404 [ContatoNaoEncontrado]
            \<and> (\<forall>t. k \<notin> ID ` set (contatos_da (pesquisar_contatos (fst (delete_contato db agora i)) t)))
            \<and> (\<forall>req. k \<notin> ID ` set (contatos_da (verificar_telefones (fst (delete_contato db agora i)) req))))
       \<and> (k \<notin> set (map c_ID (Contato db)) \<longrightarrow>
            delete_contato db agora i = (db, Erro 404 [ContatoNaoEncontrado]))"
proof (intro conjI impI)
  assume e: "k \<in> set (map c_ID (Contato db))"
  from delete_contato_existente [OF i e, of agora] obtain r0 where
    g: "get_contato db i = Objeto r0"
    and c: "\<exists>c\<in>set (Contato db). c_ID c = k \<and> NOME r0 = c_NOME c
                 \<and> TELEFONES r0 = telefones_da_linha (group_concat (map t_NUMERO (telefones_de db c)))"
    and d: "delete_contato db agora i
               = (delete_Contato (gravarLog db agora i (NOME r0) (TELEFONES r0)) k, Mensagem Excluido)"
    by blast
  let ?db' = "fst (delete_contato db agora i)"
  have db': "?db' = db\<lparr>Contato := filter (\<lambda>c. c_ID c \<noteq> k) (Contato db),
             Telefone := filter (\<lambda>t. t_IDCONTATO t \<noteq> k) (Telefone db),
             exclusoes := exclusoes db @ [logLine agora i (NOME r0) (TELEFONES r0)]\<rparr>"
    by (simp add: d delete_Contato_gravarLog [OF e])
  have l: "exclusoes ?db' = exclusoes db @ [logLine agora i (NOME r0) (TELEFONES r0)]"
    by (simp add: db')
  from g c d l show "\<exists>r0. get_contato db i = Objeto r0
               \<and> (\<exists>c\<in>set (Contato db). c_ID c = k \<and> NOME r0 = c_NOME c
                     \<and> TELEFONES r0 = telefones_da_linha (group_concat (map t_NUMERO (telefones_de db c))))
               \<and> delete_contato db agora i
                   = (delete_Contato (gravarLog db agora i (NOME r0) (TELEFONES r0)) k, Mensagem Excluido)
               \<and> exclusoes ?db' = exclusoes db @ [logLine agora i (NOME r0) (TELEFONES r0)]"
    by blast
  show "Contato ?db' = filter (\<lambda>c. c_ID c \<noteq> k) (Contato db)"
    by (simp add: db')
  show "Telefone ?db' = filter (\<lambda>t. t_IDCONTATO t \<noteq> k) (Telefone db)"
    by (simp add: db')
  have n: "k \<notin> set (map c_ID (Contato ?db'))"
    by (auto simp: db')
  show "k \<notin> ID ` set (contatos_da (get_contatos ?db'))"
    using n get_contatos_ids by blast
  from n have "filter (\<lambda>c. c_ID c = k) (Contato ?db') = []"
    by (simp only: filter_id_vazio not_False_eq_True)
  then show "get_contato ?db' i = Erro 404 [ContatoNaoEncontrado]"
    by (simp add: get_contato_def i selecionar_por_id)
  show "\<forall>t. k \<notin> ID ` set (contatos_da (pesquisar_contatos ?db' t))"
    using n pesquisar_ids by blast
  show "\<forall>req. k \<notin> ID ` set (contatos_da (verificar_telefones ?db' req))"
    using n verificar_ids by blast
next
  assume "k \<notin> set (map c_ID (Contato db))"
  then show "delete_contato db agora i = (db, Erro 404 [ContatoNaoEncontrado])"
    by (rule delete_contato_inexistente [OF i])
qed

lemma excluir_contato_exemplo:
  "sql_inteiro ''1'' = Some 1
   \<and> delete_contato
        \<lparr>Contato = [\<lparr>c_ID = 1, c_NOME = ''Ana'', c_IDADE = Some 30\<rparr>,
                    \<lparr>c_ID = 2, c_NOME = ''Bia'', c_IDADE = None\<rparr>],
         Telefone = [\<lparr>t_ID = 1, t_IDCONTATO = 1, t_NUMERO = ''(11) 98765-4321''\<rparr>,
                     \<lparr>t_ID = 2, t_IDCONTATO = 2, t_NUMERO = ''2199998888''\<rparr>,
                     \<lparr>t_ID = 3, t_IDCONTATO = 1, t_NUMERO = ''1133334444''\<rparr>],
         seq_Contato = 2, seq_Telefone = 3, exclusoes = []\<rparr>
        ''2026-01-01T00:00:00.000Z'' ''1''
       = (\<lparr>Contato = [\<lparr>c_ID = 2, c_NOME = ''Bia'', c_IDADE = None\<rparr>],
           Telefone = [\<lparr>t_ID = 2, t_IDCONTATO = 2, t_NUMERO = ''2199998888''\<rparr>],
           seq_Contato = 2, seq_Telefone = 3,
           exclusoes = [''[2026-01-01T00:00:00.000Z] ID: 1 | NOME: Ana | TELEFONES: (11) 98765-4321, 1133334444''
                          @ [CHR 0x0A]]\<rparr>,
          Mensagem Excluido)
   \<and> get_contato (fst (delete_contato
        \<lparr>Contato = [\<lparr>c_ID = 1, c_NOME = ''Ana'', c_IDADE = Some 30\<rparr>,
                    \<lparr>c_ID = 2, c_NOME = ''Bia'', c_IDADE = None\<rparr>],
         Telefone = [\<lparr>t_ID = 1, t_IDCONTATO = 1, t_NUMERO = ''(11) 98765-4321''\<rparr>,
                     \<lparr>t_ID = 2, t_IDCONTATO = 2, t_NUMERO = ''2199998888''\<rparr>,
                     \<lparr>t_ID = 3, t_IDCONTATO = 1, t_NUMERO = ''1133334444''\<rparr>],
         seq_Contato = 2, seq_Telefone = 3, exclusoes = []\<rparr>
        ''2026-01-01T00:00:00.000Z'' ''1'')) ''1''
       = Erro 404 [ContatoNaoEncontrado]
   \<and> sql_inteiro ''9'' = Some 9
   \<and> delete_contato
        \<lparr>Contato = [\<lparr>c_ID = 1, c_NOME = ''Ana'', c_IDADE = Some 30\<rparr>,
                    \<lparr>c_ID = 2, c_NOME = ''Bia'', c_IDADE = None\<rparr>],
         Telefone = [\<lparr>t_ID = 1, t_IDCONTATO = 1, t_NUMERO = ''(11) 98765-4321''\<rparr>,
                     \<lparr>t_ID = 2, t_IDCONTATO = 2, t_NUMERO = ''2199998888''\<rparr>,
                     \<lparr>t_ID = 3, t_IDCONTATO = 1, t_NUMERO = ''1133334444''\<rparr>],
         seq_Contato = 2, seq_Telefone = 3, exclusoes = []\<rparr>
        ''2026-01-01T00:00:00.000Z'' ''9''
       = (\<lparr>Contato = [\<lparr>c_ID = 1, c_NOME = ''Ana'', c_IDADE = Some 30\<rparr>,
                       \<lparr>c_ID = 2, c_NOME = ''Bia'', c_IDADE = None\<rparr>],
           Telefone = [\<lparr>t_ID = 1, t_IDCONTATO = 1, t_NUMERO = ''(11) 98765-4321''\<rparr>,
                       \<lparr>t_ID = 2, t_IDCONTATO = 2, t_NUMERO = ''2199998888''\<rparr>,
                       \<lparr>t_ID = 3, t_IDCONTATO = 1, t_NUMERO = ''1133334444''\<rparr>],
           seq_Contato = 2, seq_Telefone = 3, exclusoes = []\<rparr>,
          Erro 404 [ContatoNaoEncontrado])"
proof -
  let ?db = "\<lparr>Contato = [\<lparr>c_ID = 1, c_NOME = ''Ana'', c_IDADE = Some 30\<rparr>,
                    \<lparr>c_ID = 2, c_NOME = ''Bia'', c_IDADE = None\<rparr>],
         Telefone = [\<lparr>t_ID = 1, t_IDCONTATO = 1, t_NUMERO = ''(11) 98765-4321''\<rparr>,
                     \<lparr>t_ID = 2, t_IDCONTATO = 2, t_NUMERO = ''2199998888''\<rparr>,
                     \<lparr>t_ID = 3, t_IDCONTATO = 1, t_NUMERO = ''1133334444''\<rparr>],
         seq_Contato = 2, seq_Telefone = 3, exclusoes = []\<rparr>"
  let ?agora = "''2026-01-01T00:00:00.000Z''"
  have i1: "sql_inteiro ''1'' = Some 1" and i9: "sql_inteiro ''9'' = Some 9"
    by code_simp+
  have e1: "1 \<in> set (map c_ID (Contato ?db))" and e9: "9 \<notin> set (map c_ID (Contato ?db))"
    by simp_all
  have d: "delete_contato ?db ?agora ''1''
       = (\<lparr>Contato = [\<lparr>c_ID = 2, c_NOME = ''Bia'', c_IDADE = None\<rparr>],
           Telefone = [\<lparr>t_ID = 2, t_IDCONTATO = 2, t_NUMERO = ''2199998888''\<rparr>],
           seq_Contato = 2, seq_Telefone = 3,
           exclusoes = [''[2026-01-01T00:00:00.000Z] ID: 1 | NOME: Ana | TELEFONES: (11) 98765-4321, 1133334444''
                          @ [CHR 0x0A]]\<rparr>,
          Mensagem Excluido)"
    by code_simp
  from excluir_contato [OF i1, of ?db ?agora] e1
  have g: "get_contato (fst (delete_contato ?db ?agora ''1'')) ''1'' = Erro 404 [ContatoNaoEncontrado]"
    by blast
  from excluir_contato [OF i9, of ?db ?agora] e9
  have n: "delete_contato ?db ?agora ''9'' = (?db, Erro 404 [ContatoNaoEncontrado])"
    by blast
  from i1 i9 d g n show ?thesis by blast
qed

subsection \<open>The phones in a search result\<close>



subsection \<open>Where the code departs from its documentation\<close>

text \<open>
  C2. The search does not do what the documentation of the server says of it
  ("busca telefones independente de formatacao"). A contact is created with the
  phone \<^verbatim>\<open>11.98765.4321\<close>, which the validation accepts: eleven digits. Its
  digit-only form \<^verbatim>\<open>11987654321\<close> contains \<^verbatim>\<open>987654321\<close>, but
  \<^verbatim>\<open>SQL_NUMERO_NORMALIZADO\<close> removes parentheses, hyphens and spaces only, so the
  handler of the search returns nothing for that term. Moreover the route
  \<^verbatim>\<open>/api/contatos/:id\<close> is registered before \<^verbatim>\<open>/api/contatos/pesquisar\<close>: the
  server answers a search request from the handler of get-by-id, with 404. And
  \<^verbatim>\<open>LIKE\<close> reads \<^verbatim>\<open>_\<close> in the term as a wildcard: the term \<^verbatim>\<open>A_a9\<close> returns the
  contact \<^verbatim>\<open>Ana9\<close>, whose name does not contain it and whose phone has no 9.
\<close>

theorem pesquisar_nao_encontra_telefone_com_pontos:
  "post_contatos banco_inicial \<lparr>nome = ''Ana'', idade = Some 30, telefones = [''11.98765.4321'']\<rparr>
     = (\<lparr>Contato = [\<lparr>c_ID = 1, c_NOME = ''Ana'', c_IDADE = Some 30\<rparr>],
         Telefone = [\<lparr>t_ID = 1, t_IDCONTATO = 1, t_NUMERO = ''11.98765.4321''\<rparr>],
         seq_Contato = 1, seq_Telefone = 1, exclusoes = []\<rparr>,
        Criado 1)
   \<and> normalizarNumero ''11.98765.4321'' = ''11987654321''
   \<and> pesquisar_contatos
        \<lparr>Contato = [\<lparr>c_ID = 1, c_NOME = ''Ana'', c_IDADE = Some 30\<rparr>],
         Telefone = [\<lparr>t_ID = 1, t_IDCONTATO = 1, t_NUMERO = ''11.98765.4321''\<rparr>],
         seq_Contato = 1, seq_Telefone = 1, exclusoes = []\<rparr>
        ''987654321''
       = Lista []
   \<and> servidor
        \<lparr>Contato = [\<lparr>c_ID = 1, c_NOME = ''Ana'', c_IDADE = Some 30\<rparr>],
         Telefone = [\<lparr>t_ID = 1, t_IDCONTATO = 1, t_NUMERO = ''11.98765.4321''\<rparr>],
         seq_Contato = 1, seq_Telefone = 1, exclusoes = []\<rparr>
        ''2026-01-01T00:00:00.000Z''
        \<lparr>metodo = GET, caminho = [''api'', ''contatos'', ''pesquisar''], termo = ''Ana'',
         corpo = \<lparr>nome = [], idade = None, telefones = []\<rparr>\<rparr>
       = (\<lparr>Contato = [\<lparr>c_ID = 1, c_NOME = ''Ana'', c_IDADE = Some 30\<rparr>],
           Telefone = [\<lparr>t_ID = 1, t_IDCONTATO = 1, t_NUMERO = ''11.98765.4321''\<rparr>],
           seq_Contato = 1, seq_Telefone = 1, exclusoes = []\<rparr>,
          Erro 404 [ContatoNaoEncontrado])
   \<and> pesquisar_contatos
        \<lparr>Contato = [\<lparr>c_ID = 1, c_NOME = ''Ana9'', c_IDADE = None\<rparr>],
         Telefone = [\<lparr>t_ID = 1, t_IDCONTATO = 1, t_NUMERO = ''2022223333''\<rparr>],
         seq_Contato = 1, seq_Telefone = 1, exclusoes = []\<rparr>
        ''A_a9''
       = Lista [\<lparr>ID = 1, NOME = ''Ana9'', IDADE = None, TELEFONES = [''2022223333'']\<rparr>]"
  by code_simp

text \<open>
  C4. The line that a deletion appends to the log does not always hold the phone
  list of the deleted contact. The handler reads the phones as one text joined by
  \<^verbatim>\<open>||\<close> and splits it at \<^verbatim>\<open>||\<close>, so a stored phone that contains \<^verbatim>\<open>||\<close> is
  logged in pieces: for the contact \<^verbatim>\<open>Bia\<close> with the one phone
  \<^verbatim>\<open>11987||654321\<close> the line lists two phones, \<^verbatim>\<open>11987, 654321\<close>. The rest of
  the claim holds, see \<open>excluir_contato\<close>.
\<close>

theorem excluir_registra_telefone_em_pedacos:
  "post_contatos banco_inicial \<lparr>nome = ''Bia'', idade = None, telefones = [''11987||654321'']\<rparr>
     = (\<lparr>Contato = [\<lparr>c_ID = 1, c_NOME = ''Bia'', c_IDADE = None\<rparr>],
         Telefone = [\<lparr>t_ID = 1, t_IDCONTATO = 1, t_NUMERO = ''11987||654321''\<rparr>],
         seq_Contato = 1, seq_Telefone = 1, exclusoes = []\<rparr>,
        Criado 1)
   \<and> delete_contato
        \<lparr>Contato = [\<lparr>c_ID = 1, c_NOME = ''Bia'', c_IDADE = None\<rparr>],
         Telefone = [\<lparr>t_ID = 1, t_IDCONTATO = 1, t_NUMERO = ''11987||654321''\<rparr>],
         seq_Contato = 1, seq_Telefone = 1, exclusoes = []\<rparr>
        ''2026-01-01T00:00:00.000Z'' ''1''
       = (\<lparr>Contato = [], Telefone = [], seq_Contato = 1, seq_Telefone = 1,
           exclusoes = [''[2026-01-01T00:00:00.000Z] ID: 1 | NOME: Bia | TELEFONES: 11987, 654321''
                          @ [CHR 0x0A]]\<rparr>,
          Mensagem Excluido)"
  by code_simp

text \<open>
  C7. The duplicate check misses a stored phone that is written with a character
  other than parentheses, hyphens and spaces: the candidate is normalised to its
  digits by \<open>normalizarNumero\<close>, the stored number by \<^verbatim>\<open>SQL_NUMERO_NORMALIZADO\<close>
  only. After a contact is created with the phone \<^verbatim>\<open>11.98765.4321\<close>, the check of
  that very string, and of its digits, returns no contact.
\<close>

theorem verificar_nao_encontra_telefone_com_pontos:
  "post_contatos banco_inicial \<lparr>nome = ''Ana'', idade = Some 30, telefones = [''11.98765.4321'']\<rparr>
     = (\<lparr>Contato = [\<lparr>c_ID = 1, c_NOME = ''Ana'', c_IDADE = Some 30\<rparr>],
         Telefone = [\<lparr>t_ID = 1, t_IDCONTATO = 1, t_NUMERO = ''11.98765.4321''\<rparr>],
         seq_Contato = 1, seq_Telefone = 1, exclusoes = []\<rparr>,
        Criado 1)
   \<and> verificar_telefones
        \<lparr>Contato = [\<lparr>c_ID = 1, c_NOME = ''Ana'', c_IDADE = Some 30\<rparr>],
         Telefone = [\<lparr>t_ID = 1, t_IDCONTATO = 1, t_NUMERO = ''11.98765.4321''\<rparr>],
         seq_Contato = 1, seq_Telefone = 1, exclusoes = []\<rparr>
        \<lparr>nome = [], idade = None, telefones = [''11.98765.4321'']\<rparr>
       = Duplicatas []
   \<and> verificar_telefones
        \<lparr>Contato = [\<lparr>c_ID = 1, c_NOME = ''Ana'', c_IDADE = Some 30\<rparr>],
         Telefone = [\<lparr>t_ID = 1, t_IDCONTATO = 1, t_NUMERO = ''11.98765.4321''\<rparr>],
         seq_Contato = 1, seq_Telefone = 1, exclusoes = []\<rparr>
        \<lparr>nome = [], idade = None, telefones = [''11987654321'']\<rparr>
       = Duplicatas []
   \<and> normalizarNumero ''11.98765.4321'' = normalizarNumero ''11987654321''"
  by code_simp

lemma split_sem_barra:
  "CHR ''|'' \<notin> set p \<Longrightarrow> split ''||'' p = [p]"
  by (induction p) auto

lemma split_prefixo:
  "CHR ''|'' \<notin> set p \<Longrightarrow> split ''||'' (p @ CHR ''|'' # CHR ''|'' # rest) = p # split ''||'' rest"
  by (induction p) auto

lemma split_join:
  "ps \<noteq> [] \<Longrightarrow> \<forall>p\<in>set ps. CHR ''|'' \<notin> set p \<Longrightarrow> split ''||'' (join ''||'' ps) = ps"
proof (induction ps)
  case Nil
  then show ?case by simp
next
  case (Cons p ps)
  show ?case
  proof (cases ps)
    case Nil
    with Cons.prems show ?thesis by (simp add: split_sem_barra)
  next
    case (Cons q qs)
    with Cons.prems Cons.IH show ?thesis
      by (simp add: split_prefixo del: split.simps)
  qed
qed

lemma join_vazio: "join sep ps = [] \<Longrightarrow> ps = [] \<or> (\<forall>p\<in>set ps. p = [])"
  by (induction sep ps rule: join.induct) auto

lemma telefones_da_linha_group_concat:
  assumes "\<forall>p\<in>set ps. p \<noteq> [] \<and> CHR ''|'' \<notin> set p"
  shows "telefones_da_linha (group_concat ps) = ps"
proof (cases "ps = []")
  case True
  then show ?thesis by (simp add: telefones_da_linha_def group_concat_def)
next
  case False
  with assms have "join ''||'' ps \<noteq> []"
    using join_vazio [of "''||''" ps] by (cases ps) auto
  with False assms show ?thesis
    by (simp add: telefones_da_linha_def group_concat_def split_join)
qed

lemma selecionar_tudo:
  "selecionar left_join (\<lambda>c t. True) db = map (\<lambda>c. agregar c (left_join db c)) (Contato db)"
proof -
  have "concat (map (\<lambda>c. grupo (\<lambda>c t. True) (left_join db c) c) cs)
          = map (\<lambda>c. agregar c (left_join db c)) cs" for cs
    by (induction cs) (auto simp: grupo_def)
  then show ?thesis by (simp add: selecionar_def)
qed

text \<open>
  What does hold of the list of all contacts: it is ordered by name, and when no
  stored phone is empty or contains \<^verbatim>\<open>|\<close> it holds every row of \<^verbatim>\<open>Contato\<close>
  exactly once, with its columns and all its stored phones.
\<close>

lemma get_contatos_completo:
  "sorted (map NOME (contatos_da (get_contatos db)))
   \<and> ((\<forall>t\<in>set (Telefone db). t_NUMERO t \<noteq> [] \<and> CHR ''|'' \<notin> set (t_NUMERO t)) \<longrightarrow>
        mset (contatos_da (get_contatos db)) = mset (map (objeto_do_contato db) (Contato db)))"
proof (intro conjI impI)
  have n: "NOME \<circ> objeto = l_NOME"
    by (simp add: fun_eq_iff objeto_def)
  show "sorted (map NOME (contatos_da (get_contatos db)))"
    by (simp add: get_contatos_def order_by_NOME_def n)
next
  assume a: "\<forall>t\<in>set (Telefone db). t_NUMERO t \<noteq> [] \<and> CHR ''|'' \<notin> set (t_NUMERO t)"
  have o: "objeto (agregar c (left_join db c)) = objeto_do_contato db c" for c
  proof -
    have "\<forall>p\<in>set (map t_NUMERO (telefones_de db c)). p \<noteq> [] \<and> CHR ''|'' \<notin> set p"
      using a by (auto simp: telefones_de_def)
    then show ?thesis
      by (simp add: objeto_agregar objeto_do_contato_def telefones_da_linha_group_concat)
  qed
  have "mset (contatos_da (get_contatos db))
          = mset (map (\<lambda>c. objeto (agregar c (left_join db c))) (Contato db))"
    by (simp add: get_contatos_def order_by_NOME_def selecionar_tudo multiset.map_comp comp_def)
  also have "\<dots> = mset (map (objeto_do_contato db) (Contato db))"
    by (simp add: o)
  finally show "mset (contatos_da (get_contatos db)) = mset (map (objeto_do_contato db) (Contato db))" .
qed

lemma pesquisar_contatos_ordenado:
  "sorted (map NOME (contatos_da (pesquisar_contatos db t)))"
proof -
  have n: "NOME \<circ> objeto = l_NOME"
    by (simp add: fun_eq_iff objeto_def)
  show ?thesis
    by (simp add: pesquisar_contatos_def order_by_NOME_def Let_def n)
qed

text \<open>
  The server never runs the handler of the search: the route of get-by-id comes
  first and takes \<^verbatim>\<open>pesquisar\<close> for an \<^verbatim>\<open>:id\<close>.
\<close>

lemma rota_pesquisar_encoberta:
  "servidor db agora \<lparr>metodo = GET, caminho = [''api'', ''contatos'', ''pesquisar''], termo = t, corpo = b\<rparr>
     = (db, Erro 404 [ContatoNaoEncontrado])"
proof -
  have d: "despachar rotas GET [''api'', ''contatos'', ''pesquisar''] = Some (ContatoPorId, ''pesquisar'')"
    by code_simp
  have i: "sql_inteiro ''pesquisar'' = None"
    by code_simp
  show ?thesis
    by (simp add: servidor_def d get_contato_def i)
qed

text \<open>
  C9. The list of all contacts does not always return the stored phone strings:
  the phones of a contact travel as one text joined by \<^verbatim>\<open>||\<close> and are split at
  \<^verbatim>\<open>||\<close> again, so a stored phone that contains \<^verbatim>\<open>||\<close> comes back in pieces. The
  validation accepts \<^verbatim>\<open>11987||654321\<close> (eleven digits), and the list then shows
  two phones, \<^verbatim>\<open>11987\<close> and \<^verbatim>\<open>654321\<close>, for the contact.
\<close>

theorem listar_divide_telefone_com_barras:
  "post_contatos banco_inicial \<lparr>nome = ''Bia'', idade = None, telefones = [''11987||654321'']\<rparr>
     = (\<lparr>Contato = [\<lparr>c_ID = 1, c_NOME = ''Bia'', c_IDADE = None\<rparr>],
         Telefone = [\<lparr>t_ID = 1, t_IDCONTATO = 1, t_NUMERO = ''11987||654321''\<rparr>],
         seq_Contato = 1, seq_Telefone = 1, exclusoes = []\<rparr>,
        Criado 1)
   \<and> get_contatos
        \<lparr>Contato = [\<lparr>c_ID = 1, c_NOME = ''Bia'', c_IDADE = None\<rparr>],
         Telefone = [\<lparr>t_ID = 1, t_IDCONTATO = 1, t_NUMERO = ''11987||654321''\<rparr>],
         seq_Contato = 1, seq_Telefone = 1, exclusoes = []\<rparr>
       = Lista [\<lparr>ID = 1, NOME = ''Bia'', IDADE = None, TELEFONES = [''11987'', ''654321'']\<rparr>]"
  by code_simp

end
